theory Spec2Isabelle
  imports Main "HOL-Library.Char_ord" "HOL-Library.List_Lexorder" "HOL-Library.FSet"
    "HOL-Library.AList" "HOL-Library.Multiset"
begin

unbundle bit_operations_syntax

section \<open>Byte strings, Go maps and the library functions the controller calls\<close>

text \<open>
  A Go \<open>string\<close> and a Go \<open>[]byte\<close> are both sequences of bytes, and the conversions
  \<open>[]byte(s)\<close> and \<open>string(b)\<close> keep the bytes. Both are modelled as \<open>string\<close>
  (a list of 8-bit characters). Go compares strings byte by byte, a proper prefix being
  smaller: this is the lexicographic order of \<open>HOL-Library.List_Lexorder\<close> over the
  byte order of \<open>HOL-Library.Char_ord\<close>.
\<close>

definition NUL :: char where
  "NUL = CHR 0x00"

text \<open>
  A Go map is modelled as an association list with distinct keys; the order of the list is
  the order in which \<open>range\<close> happens to visit the map in one run.
  \<open>map_index m k\<close> is the Go expression \<open>m[k]\<close>: the zero value (the empty string, the
  nil slice) when the key is absent.
\<close>

definition map_index :: "(string \<times> string) list \<Rightarrow> string \<Rightarrow> string" where
  "map_index m k = (case map_of m k of None \<Rightarrow> [] | Some v \<Rightarrow> v)"

subsection \<open>crypto/sha256\<close>

text \<open>
  SHA-256 as in FIPS 180-4, on 32-bit values held in \<open>nat\<close> with the wrap-around
  written out; the round constants and the initial registers are given in decimal. The sixteen-word window \<open>ws\<close> of the message schedule slides by one word
  per round.
\<close>

definition add32 :: "nat \<Rightarrow> nat \<Rightarrow> nat" where
  "add32 a b = (a + b) mod 4294967296"

definition rotr :: "nat \<Rightarrow> nat \<Rightarrow> nat" where
  "rotr n x = x div 2 ^ n + (x mod 2 ^ n) * 2 ^ (32 - n)"

definition Ch :: "nat \<Rightarrow> nat \<Rightarrow> nat \<Rightarrow> nat" where
  "Ch x y z = (x AND y) XOR ((4294967295 - x) AND z)"

definition Maj :: "nat \<Rightarrow> nat \<Rightarrow> nat \<Rightarrow> nat" where
  "Maj x y z = (x AND y) XOR (x AND z) XOR (y AND z)"

definition bsig0 :: "nat \<Rightarrow> nat" where
  "bsig0 x = rotr 2 x XOR rotr 13 x XOR rotr 22 x"

definition bsig1 :: "nat \<Rightarrow> nat" where
  "bsig1 x = rotr 6 x XOR rotr 11 x XOR rotr 25 x"

definition ssig0 :: "nat \<Rightarrow> nat" where
  "ssig0 x = rotr 7 x XOR rotr 18 x XOR x div 2 ^ 3"

definition ssig1 :: "nat \<Rightarrow> nat" where
  "ssig1 x = rotr 17 x XOR rotr 19 x XOR x div 2 ^ 10"

definition K256 :: "nat list" where
  "K256 = [
  1116352408, 1899447441, 3049323471, 3921009573, 961987163, 1508970993, 2453635748, 2870763221,
  3624381080, 310598401, 607225278, 1426881987, 1925078388, 2162078206, 2614888103, 3248222580,
  3835390401, 4022224774, 264347078, 604807628, 770255983, 1249150122, 1555081692, 1996064986,
  2554220882, 2821834349, 2952996808, 3210313671, 3336571891, 3584528711, 113926993, 338241895,
  666307205, 773529912, 1294757372, 1396182291, 1695183700, 1986661051, 2177026350, 2456956037,
  2730485921, 2820302411, 3259730800, 3345764771, 3516065817, 3600352804, 4094571909, 275423344,
  430227734, 506948616, 659060556, 883997877, 958139571, 1322822218, 1537002063, 1747873779,
  1955562222, 2024104815, 2227730452, 2361852424, 2428436474, 2756734187, 3204031479, 3329325298]"

type_synonym regs = "nat \<times> nat \<times> nat \<times> nat \<times> nat \<times> nat \<times> nat \<times> nat"

definition sha256_init :: regs where
  "sha256_init =
     (1779033703, 3144134277, 1013904242, 2773480762, 1359893119, 2600822924, 528734635, 1541459225)"

fun shift_regs :: "nat \<Rightarrow> nat \<Rightarrow> regs \<Rightarrow> regs" where
  "shift_regs t1 t2 (a, b, c, d, e, f, g, h) = (add32 t1 t2, a, b, c, add32 d t1, e, f, g)"

fun temp1 :: "nat \<Rightarrow> nat \<Rightarrow> regs \<Rightarrow> nat" where
  "temp1 k w (a, b, c, d, e, f, g, h) =
     add32 (add32 (add32 (add32 h (bsig1 e)) (Ch e f g)) k) w"

fun temp2 :: "regs \<Rightarrow> nat" where
  "temp2 (a, b, c, d, e, f, g, h) = add32 (bsig0 a) (Maj a b c)"

definition next_w :: "nat list \<Rightarrow> nat" where
  "next_w ws = add32 (add32 (add32 (ssig1 (ws ! 14)) (ws ! 9)) (ssig0 (ws ! 1))) (ws ! 0)"

fun sha_round :: "regs \<times> nat list \<Rightarrow> nat \<Rightarrow> regs \<times> nat list" where
  "sha_round (r, ws) k = (shift_regs (temp1 k (hd ws) r) (temp2 r) r, tl ws @ [next_w ws])"

fun add_regs :: "regs \<Rightarrow> regs \<Rightarrow> regs" where
  "add_regs (a, b, c, d, e, f, g, h) (a', b', c', d', e', f', g', h') =
     (add32 a a', add32 b b', add32 c c', add32 d d',
      add32 e e', add32 f f', add32 g g', add32 h h')"

definition compress :: "regs \<Rightarrow> nat list \<Rightarrow> regs" where
  "compress r ws = add_regs r (fst (foldl sha_round (r, ws) K256))"

fun be32 :: "nat list \<Rightarrow> nat list" where
  "be32 (a # b # c # d # bs) = (((a * 256 + b) * 256 + c) * 256 + d) # be32 bs"
| "be32 _ = []"

fun blocks :: "regs \<Rightarrow> nat list \<Rightarrow> regs" where
  "blocks r (w0 # w1 # w2 # w3 # w4 # w5 # w6 # w7 # w8 # w9 # w10 # w11 # w12 # w13 # w14 # w15 # ws) =
     blocks (compress r [w0, w1, w2, w3, w4, w5, w6, w7, w8, w9, w10, w11, w12, w13, w14, w15]) ws"
| "blocks r _ = r"

definition be_bytes4 :: "nat \<Rightarrow> nat list" where
  "be_bytes4 x = [x div 16777216 mod 256, x div 65536 mod 256, x div 256 mod 256, x mod 256]"

definition be_bytes8 :: "nat \<Rightarrow> nat list" where
  "be_bytes8 x = be_bytes4 (x div 4294967296) @ be_bytes4 (x mod 4294967296)"

definition pad :: "nat list \<Rightarrow> nat list" where
  "pad bs = bs @ [128] @ replicate ((119 - length bs mod 64) mod 64) 0 @ be_bytes8 (8 * length bs)"

fun regs_bytes :: "regs \<Rightarrow> nat list" where
  "regs_bytes (a, b, c, d, e, f, g, h) =
     be_bytes4 a @ be_bytes4 b @ be_bytes4 c @ be_bytes4 d @
     be_bytes4 e @ be_bytes4 f @ be_bytes4 g @ be_bytes4 h"

definition sha256 :: "string \<Rightarrow> string" where
  "sha256 s = map char_of (regs_bytes (blocks sha256_init (be32 (pad (map of_char s)))))"

subsection \<open>encoding/hex\<close>

definition hexdigit :: "nat \<Rightarrow> char" where
  "hexdigit n = ''0123456789abcdef'' ! n"

definition hex_byte :: "char \<Rightarrow> string" where
  "hex_byte c = [hexdigit (of_char c div 16), hexdigit (of_char c mod 16)]"

definition hex_EncodeToString :: "string \<Rightarrow> string" where
  "hex_EncodeToString bs = concat (map hex_byte bs)"

section \<open>The objects of the store\<close>

text \<open>
  Of a Kubernetes object the controller reads the namespace, the name, the labels and,
  by kind, the entries of a ConfigMap (\<open>Data\<close>, \<open>BinaryData\<close>), the entries of a Secret
  (\<open>Data\<close>, here \<open>SecretData\<close>) and the pod-template annotations of a workload
  (\<open>Spec.Template.Annotations\<close>, which may be the nil map).
\<close>

record ObjectMeta =
  Namespace :: string
  Name :: string
  Labels :: "(string \<times> string) list"

record ConfigMap = ObjectMeta +
  Data :: "(string \<times> string) list"
  BinaryData :: "(string \<times> string) list"

record Secret = ObjectMeta +
  SecretData :: "(string \<times> string) list"

record Workload = ObjectMeta +
  Annotations :: "(string \<times> string) list option"

section \<open>Key filter\<close>

text \<open>
  The exclusion set is a Go \<open>map[string]struct{}\<close>, which may be nil: a finite set of
  keys, or \<open>None\<close>. \<open>len\<close> of the nil map is 0.
\<close>

fun len_keys :: "string fset option \<Rightarrow> nat" where
  "len_keys None = 0"
| "len_keys (Some s) = fcard s"

fun has_key :: "string fset option \<Rightarrow> string \<Rightarrow> bool" where
  "has_key None k = False"
| "has_key (Some s) k = (k |\<in>| s)"

definition shouldIgnoreKey :: "string \<Rightarrow> string fset option \<Rightarrow> bool" where
  "shouldIgnoreKey key ignoredKeys =
     (if len_keys ignoredKeys = 0 then False else has_key ignoredKeys key)"

section \<open>Source fingerprints\<close>

text \<open>
  The keys that survive the filter, tagged and in the order of the two \<open>range\<close> loops.
\<close>

definition tagged_keys :: "string \<Rightarrow> (string \<times> string) list \<Rightarrow> string fset option \<Rightarrow> string list" where
  "tagged_keys tag m ignoredKeys =
     map (\<lambda>k. tag @ k) (filter (\<lambda>k. \<not> shouldIgnoreKey k ignoredKeys) (map fst m))"

text \<open>
  The bytes one iteration of the hashing loop of \<open>hashConfigMapContent\<close> writes for the
  sorted tagged key \<open>k\<close>: the \<open>switch\<close> with its two guarded cases, then the closing NUL
  that is written in every case.
\<close>

definition configmap_writes :: "ConfigMap \<Rightarrow> string \<Rightarrow> string" where
  "configmap_writes cfg k =
     (if length k > 2 \<and> take 2 k = ''s:'' then
        ''s'' @ drop 2 k @ [NUL] @ map_index (Data cfg) (drop 2 k)
      else if length k > 2 \<and> take 2 k = ''b:'' then
        ''b'' @ drop 2 k @ [NUL] @ map_index (BinaryData cfg) (drop 2 k)
      else []) @ [NUL]"

definition hashConfigMapContent :: "ConfigMap \<Rightarrow> string fset option \<Rightarrow> string" where
  "hashConfigMapContent cfg ignoredKeys =
     (if length (Data cfg) = 0 \<and> length (BinaryData cfg) = 0 then ''''
      else
        let keys = tagged_keys ''s:'' (Data cfg) ignoredKeys @
                   tagged_keys ''b:'' (BinaryData cfg) ignoredKeys
        in if length keys = 0 then ''''
           else hex_EncodeToString (sha256 (concat (map (configmap_writes cfg) (sort keys)))))"

definition secret_writes :: "Secret \<Rightarrow> string \<Rightarrow> string" where
  "secret_writes secret k =
     ''d'' @ drop 2 k @ [NUL] @ map_index (SecretData secret) (drop 2 k) @ [NUL]"

definition hashSecretContent :: "Secret \<Rightarrow> string fset option \<Rightarrow> string" where
  "hashSecretContent secret ignoredKeys =
     (if length (SecretData secret) = 0 then ''''
      else
        let keys = tagged_keys ''d:'' (SecretData secret) ignoredKeys
        in if length keys = 0 then ''''
           else hex_EncodeToString (sha256 (concat (map (secret_writes secret) (sort keys)))))"

text \<open>The simple reconciler's \<open>hashConfigMapContent\<close>: no exclusion set.\<close>

definition simple_hashConfigMapContent :: "ConfigMap \<Rightarrow> string" where
  "simple_hashConfigMapContent cfg =
     (if length (Data cfg) = 0 \<and> length (BinaryData cfg) = 0 then ''''
      else
        let keys = map (\<lambda>k. ''s:'' @ k) (map fst (Data cfg)) @
                   map (\<lambda>k. ''b:'' @ k) (map fst (BinaryData cfg))
        in hex_EncodeToString (sha256 (concat (map (configmap_writes cfg) (sort keys)))))"

section \<open>Aggregate fingerprint\<close>

text \<open>
  The two loops of \<open>hashConfigSources\<close> append one \<open>hashEntry\<close> (key, hash) per source
  whose fingerprint is not empty. \<open>sort.Slice\<close> orders the entries by key; it is not
  stable, so with equal keys Go fixes no order, and \<open>sort_key\<close> is one of the orders it
  may produce. With distinct keys the order is unique.
\<close>

definition configmap_entries :: "ConfigMap list \<Rightarrow> string fset option \<Rightarrow> (string \<times> string) list" where
  "configmap_entries configMaps ignoredConfigMapKeys =
     concat (map (\<lambda>cfg. let hash = hashConfigMapContent cfg ignoredConfigMapKeys
                         in if hash = '''' then [] else [(''configmap/'' @ Name cfg, hash)])
                 configMaps)"

definition secret_entries :: "Secret list \<Rightarrow> string fset option \<Rightarrow> (string \<times> string) list" where
  "secret_entries secrets ignoredSecretKeys =
     concat (map (\<lambda>secret. let hash = hashSecretContent secret ignoredSecretKeys
                            in if hash = '''' then [] else [(''secret/'' @ Name secret, hash)])
                 secrets)"

definition entry_writes :: "string \<times> string \<Rightarrow> string" where
  "entry_writes entry = fst entry @ [NUL] @ snd entry @ [NUL]"

definition hashConfigSources ::
  "ConfigMap list \<Rightarrow> Secret list \<Rightarrow> string fset option \<Rightarrow> string fset option \<Rightarrow> string" where
  "hashConfigSources configMaps secrets ignoredConfigMapKeys ignoredSecretKeys =
     (let entries = configmap_entries configMaps ignoredConfigMapKeys @
                    secret_entries secrets ignoredSecretKeys
      in if length entries = 0 then ''''
         else hex_EncodeToString (sha256 (concat (map entry_writes (sort_key fst entries)))))"

section \<open>Digests are never empty, and their hex form determines them\<close>

lemma length_be_bytes4 [simp]: "length (be_bytes4 x) = 4"
  by (simp add: be_bytes4_def)

lemma length_sha256 [simp]: "length (sha256 s) = 32"
proof -
  have "length (regs_bytes r) = 32" for r
    by (induct r rule: regs_bytes.induct) simp
  then show ?thesis by (simp add: sha256_def)
qed

lemma hex_EncodeToString_Nil_iff [simp]: "hex_EncodeToString bs = [] \<longleftrightarrow> bs = []"
  by (cases bs) (simp_all add: hex_EncodeToString_def hex_byte_def)

lemma sha256_not_Nil [simp]: "sha256 s \<noteq> []"
  using length_sha256 [of s] by (cases "sha256 s") simp_all

lemma hexdigit_inj: "m < 16 \<Longrightarrow> n < 16 \<Longrightarrow> hexdigit m = hexdigit n \<Longrightarrow> m = n"
proof -
  assume a: "m < 16" "n < 16" "hexdigit m = hexdigit n"
  have d: "distinct ''0123456789abcdef''" by simp
  have l: "length ''0123456789abcdef'' = 16" by simp
  from a show ?thesis
    unfolding hexdigit_def using nth_eq_iff_index_eq [OF d, of m n] l by simp
qed

lemma hex_byte_inj: "hex_byte c = hex_byte d \<Longrightarrow> c = d"
proof -
  assume "hex_byte c = hex_byte d"
  then have h: "hexdigit (of_char c div 16) = hexdigit (of_char d div 16)"
    and l: "hexdigit (of_char c mod 16) = hexdigit (of_char d mod 16)"
    by (simp_all add: hex_byte_def)
  have c: "(of_char c :: nat) < 256" and d: "(of_char d :: nat) < 256"
    by (simp_all)
  from c d have "(of_char c :: nat) div 16 < 16" "(of_char d :: nat) div 16 < 16" by presburger+
  then have 1: "(of_char c :: nat) div 16 = of_char d div 16" using h by (intro hexdigit_inj)
  have 2: "(of_char c :: nat) mod 16 = of_char d mod 16" using l by (intro hexdigit_inj) simp_all
  have "(of_char c :: nat) = 16 * (of_char c div 16) + of_char c mod 16" by simp
  also have "\<dots> = 16 * (of_char d div 16) + of_char d mod 16" by (simp only: 1 2)
  also have "\<dots> = of_char d" by simp
  finally show ?thesis by simp
qed

lemma hex_EncodeToString_inj: "hex_EncodeToString xs = hex_EncodeToString ys \<Longrightarrow> xs = ys"
proof (induction xs arbitrary: ys)
  case Nil
  then show ?case by (metis hex_EncodeToString_Nil_iff)
next
  case (Cons x xs)
  then obtain y ys' where ys: "ys = y # ys'"
    by (cases ys) (auto simp: hex_EncodeToString_def hex_byte_def)
  with Cons.prems have "hex_byte x = hex_byte y" "hex_EncodeToString xs = hex_EncodeToString ys'"
    by (auto simp: hex_EncodeToString_def hex_byte_def)
  with Cons.IH ys show ?case by (auto dest: hex_byte_inj)
qed

section \<open>Properties of the key filter\<close>

lemma len_keys_0_iff: "len_keys ks = 0 \<longleftrightarrow> ks = None \<or> ks = Some {||}"
  by (cases ks) (auto simp: fcard_0_eq)

text \<open>
  C10. \<open>shouldIgnoreKey\<close> answers False for the nil and for the empty exclusion set, and
  for every exclusion set it answers True exactly for the members of the set. It is a
  function of its two arguments only.
\<close>

theorem C10_shouldIgnoreKey:
  "shouldIgnoreKey key None = False \<and>
   shouldIgnoreKey key (Some {||}) = False \<and>
   shouldIgnoreKey key (Some s) = (key |\<in>| s)"
  by (auto simp: shouldIgnoreKey_def fcard_0_eq)

end
